theory Spec2Isabelle
  imports Main "HOL-Library.Sublist"
begin

section \<open>Data model of \<open>quickpicks/remotesQuickPick.ts\<close>\<close>

text \<open>
  A hosting-service adapter. Only its display \<open>name\<close> and its \<open>path\<close> are read by the
  quick pick; its \<open>open\<close> and \<open>copy\<close> operations are external effects.
\<close>

record RemoteProvider =
  name :: string
  path :: string

text \<open>
  A configured remote. The source writes \<open>remote.provider!.name\<close> and tests
  \<open>r.provider !== undefined\<close>, so the provider is optional. The field \<open>default\<close> of the
  source is called \<open>default_flag\<close> here (\<open>default\<close> is a constant of HOL).
\<close>

record GitRemote =
  provider :: "RemoteProvider option"
  default_flag :: bool

text \<open>
  The commit record attached to a \<open>Revision\<close>. The source reads the properties
  \<open>isFile\<close>, \<open>status\<close>, \<open>sha\<close>, \<open>previousSha\<close>, \<open>shortSha\<close> and \<open>previousShortSha\<close>;
  the previous sha (and its short form) may be absent.
\<close>

record GitLogCommit =
  isFile :: bool
  status :: "string option"
  sha :: string
  previousSha :: "string option"
  shortSha :: string
  previousShortSha :: "string option"

text \<open>
  The resource is a union discriminated by \<open>resource.type\<close>, one payload shape per
  variant: the fields are those the source reads. \<open>Unrecognized\<close> stands for a \<open>type\<close>
  tag outside the six cases of the \<open>switch\<close> (its \<open>default\<close> branch).
  \<open>Revision fileName sha commit\<close> has an optional sha and an optional commit.
\<close>

datatype RemoteResource =
    Branch string
  | Branches
  | Commit string
  | File string
  | Repo
  | Revision string "string option" "GitLogCommit option"
  | Unrecognized

datatype Commands = OpenInRemote | OtherCommand string

text \<open>
  \<open>CommandQuickPickItem\<close>: a label, a description and the bound command with its
  argument array. The arguments of \<open>Commands.OpenInRemote\<close> are
  \<open>[undefined, commandArgs]\<close> where \<open>commandArgs\<close> is an \<open>OpenInRemoteCommandArgs\<close>
  object holding the remotes, the resource and the optional go-back item.
\<close>

datatype CommandQuickPickItem =
  CommandQuickPickItem
    (label : string)
    (description : string)
    (command : "Commands option")
    (args : "CommandArg list option")
and CommandArg =
    ArgUndefined
  | OpenInRemoteCommandArgs "GitRemote list" RemoteResource "CommandQuickPickItem option"
  | OtherArg string

text \<open>
  The elements of the list \<open>RemotesQuickPick.show\<close> presents, of type
  \<open>OpenRemoteCommandQuickPickItem | CommandQuickPickItem\<close>. An \<open>OpenRemoteItem\<close> is the
  subclass instance: its \<open>CommandQuickPickItem\<close> part and the fields \<open>remote\<close>,
  \<open>resource\<close>, \<open>clipboard\<close>.
\<close>

datatype QuickPickItem =
    OpenRemoteItem CommandQuickPickItem GitRemote RemoteResource "bool option"
  | CommandItem CommandQuickPickItem

record QuickPickOptions =
  placeHolder :: string
  ignoreFocusOut :: bool

text \<open>
  What the file imports and does not define: \<open>getNameFromRemoteResource\<close> and
  \<open>GitService.shortenSha\<close> (\<open>../git/gitService\<close>), \<open>paths.basename\<close> (\<open>path\<close>),
  \<open>Strings.pad\<close> (\<open>../system\<close>), the four \<open>GlyphChars\<close> used (\<open>../constants\<close>),
  \<open>getQuickPickIgnoreFocusOut\<close> (\<open>./commonQuickPicks\<close>) and \<open>window.showQuickPick\<close>
  (\<open>vscode\<close>). They are parameters of the model; \<open>showQuickPick\<close> answers with the chosen
  item or with nothing.
\<close>

record Collaborators =
  getNameFromRemoteResource :: "RemoteResource \<Rightarrow> string"
  shortenSha :: "string \<Rightarrow> string"
  basename :: "string \<Rightarrow> string"
  pad :: "string \<Rightarrow> nat \<Rightarrow> nat \<Rightarrow> string"
  Dash :: string
  Dot :: string
  Space :: string
  Ellipsis :: string
  getQuickPickIgnoreFocusOut :: bool
  showQuickPick :: "QuickPickItem list \<Rightarrow> QuickPickOptions \<Rightarrow> QuickPickItem option"

text \<open>Reading a property of \<open>undefined\<close> throws a \<open>TypeError\<close>.\<close>

datatype fault = TypeError

section \<open>The per-remote item (lines 16 to 43)\<close>

text \<open>
  The constructor evaluates \<open>remote.provider!.name\<close> in either label and
  \<open>remote.provider!.path\<close> in the description: the non-null assertion is erased at run
  time, so an absent provider throws. \<open>clipboard\<close> is optional and tested for truthiness.
\<close>

definition OpenRemoteCommandQuickPickItem ::
  "Collaborators \<Rightarrow> GitRemote \<Rightarrow> RemoteResource \<Rightarrow> bool option \<Rightarrow> fault + QuickPickItem" where
  "OpenRemoteCommandQuickPickItem E remote resource clipboard =
     (case provider remote of
        None \<Rightarrow> Inl TypeError
      | Some p \<Rightarrow>
          Inr (OpenRemoteItem
            (CommandQuickPickItem
               (if clipboard = Some True
                then ''$(link-external) Copy '' @ getNameFromRemoteResource E resource
                       @ '' Url to Clipboard from '' @ name p
                else ''$(link-external) Open '' @ getNameFromRemoteResource E resource
                       @ '' on '' @ name p)
               (pad E (Dash E) 2 3 @ '' $(repo) '' @ path p)
               None None)
            remote resource clipboard))"

section \<open>The consolidated item (lines 45 to 151)\<close>

text \<open>A template literal renders an absent value as the text \<open>undefined\<close>.\<close>

fun interpolate :: "string option \<Rightarrow> string" where
  "interpolate None = ''undefined''"
| "interpolate (Some s) = s"

text \<open>
  Lines 89 to 92: the description of a \<open>Revision\<close> without a file commit. The short sha
  is tested for truthiness, so an empty one is left out like an absent one.
\<close>

definition revisionWithoutCommit :: "Collaborators \<Rightarrow> string \<Rightarrow> string option \<Rightarrow> string" where
  "revisionWithoutCommit E fileName sha_opt =
     (let shortFileSha = (case sha_opt of None \<Rightarrow> [] | Some s \<Rightarrow> shortenSha E s)
      in ''$(file-text) '' @ basename E fileName
           @ (if shortFileSha \<noteq> []
              then '' in '' @ Space E @ ''$(git-commit) '' @ shortFileSha
              else []))"

text \<open>
  Lines 49 to 99: the \<open>switch\<close> on \<open>resource.type\<close>. The two assignments to
  \<open>resource.sha\<close> mutate the caller's object, so the function returns the resource as it
  is after the \<open>switch\<close> together with the description.
\<close>

fun describe :: "Collaborators \<Rightarrow> RemoteResource \<Rightarrow> RemoteResource \<times> string" where
  "describe E (Branch b) = (Branch b, ''$(git-branch) '' @ b)"
| "describe E Branches = (Branches, ''$(git-branch) Branches'')"
| "describe E (Commit s) = (Commit s, ''$(git-commit) '' @ shortenSha E s)"
| "describe E (File f) = (File f, ''$(file-text) '' @ basename E f)"
| "describe E Repo = (Repo, ''$(repo) Repository'')"
| "describe E (Revision f s None) = (Revision f s None, revisionWithoutCommit E f s)"
| "describe E (Revision f s (Some c)) =
     (if isFile c then
        (if status c = Some ''D'' then
           (Revision f (previousSha c) (Some c),
            ''$(file-text) '' @ basename E f @ '' in '' @ Space E @ ''$(git-commit) ''
              @ interpolate (previousShortSha c) @ '' (deleted in '' @ Space E
              @ ''$(git-commit) '' @ shortSha c @ '')'')
         else
           (Revision f (Some (sha c)) (Some c),
            ''$(file-text) '' @ basename E f @ '' in '' @ Space E @ ''$(git-commit) ''
              @ shortSha c))
      else (Revision f s (Some c), revisionWithoutCommit E f s))"
| "describe E Unrecognized = (Unrecognized, [])"

text \<open>
  Lines 101 to 107: with several remotes \<open>remotes.find(r => r.default)\<close>, with exactly one
  remote \<open>remotes[0]\<close>, with none \<open>undefined\<close>.
\<close>

definition selectRemote :: "GitRemote list \<Rightarrow> GitRemote option" where
  "selectRemote remotes =
     (if length remotes > 1 then find default_flag remotes
      else if length remotes = 1 then Some (remotes ! 0)
      else None)"

text \<open>
  Line 133: \<open>remotes.every(r => r.provider !== undefined && r.provider.name ===
  remote!.provider!.name)\<close>, where \<open>remote\<close> is \<open>remotes[0]\<close> (absent for the empty list).
  \<open>every\<close> visits the elements in order and stops at the first one for which the callback
  is false; \<open>&&\<close> evaluates its right operand, which dereferences \<open>remote\<close> and its
  provider, only when the left one holds.
\<close>

fun every_sameProvider :: "GitRemote option \<Rightarrow> GitRemote list \<Rightarrow> fault + bool" where
  "every_sameProvider remote [] = Inr True"
| "every_sameProvider remote (r # rs) =
     (case provider r of
        None \<Rightarrow> Inr False
      | Some p \<Rightarrow>
          (case remote of
             None \<Rightarrow> Inl TypeError
           | Some r0 \<Rightarrow>
               (case provider r0 of
                  None \<Rightarrow> Inl TypeError
                | Some p0 \<Rightarrow> if name p = name p0 then every_sameProvider remote rs else Inr False)))"

text \<open>
  Lines 131 to 135: the provider name shown when no remote was selected: the name of
  \<open>remotes[0]\<close>'s provider when \<open>every\<close> holds, and \<open>Remote\<close> otherwise.
\<close>

definition providerName :: "GitRemote list \<Rightarrow> fault + string" where
  "providerName remotes =
     (let remote = (case remotes of [] \<Rightarrow> None | r # _ \<Rightarrow> Some r)
      in case every_sameProvider remote remotes of
           Inl e \<Rightarrow> Inl e
         | Inr same \<Rightarrow>
             if same then
               (case remote of
                  None \<Rightarrow> Inl TypeError
                | Some r0 \<Rightarrow>
                    (case provider r0 of None \<Rightarrow> Inl TypeError | Some p0 \<Rightarrow> Inr (name p0)))
             else Inr ''Remote'')"

text \<open>
  The constructor. The name is taken from the resource before the \<open>switch\<close>; the command
  arguments hold the caller's remotes array and the (possibly updated) resource object.
  The result is the resource after the call, and the item or the fault.
\<close>

definition OpenRemotesCommandQuickPickItem ::
  "Collaborators \<Rightarrow> GitRemote list \<Rightarrow> RemoteResource \<Rightarrow> CommandQuickPickItem option
     \<Rightarrow> RemoteResource \<times> (fault + CommandQuickPickItem)" where
  "OpenRemotesCommandQuickPickItem E remotes resource goBackCommand =
     (let nm = getNameFromRemoteResource E resource;
          (resource', descr) = describe E resource;
          commandArgs = OpenInRemoteCommandArgs remotes resource' goBackCommand
      in case selectRemote remotes of
           Some remote \<Rightarrow>
             (case provider remote of
                None \<Rightarrow> (resource', Inl TypeError)
              | Some p \<Rightarrow>
                  (resource',
                   Inr (CommandQuickPickItem
                     (''$(link-external) Open '' @ nm @ '' on '' @ name p)
                     (pad E (Dash E) 2 3 @ '' $(repo) '' @ path p @ '' '' @ pad E (Dot E) 1 1
                        @ '' '' @ descr)
                     (Some OpenInRemote)
                     (Some [ArgUndefined, commandArgs]))))
         | None \<Rightarrow>
             (case providerName remotes of
                Inl e \<Rightarrow> (resource', Inl e)
              | Inr prov \<Rightarrow>
                  (resource',
                   Inr (CommandQuickPickItem
                     (''$(link-external) Open '' @ nm @ '' on '' @ prov @ Ellipsis E)
                     (pad E (Dash E) 2 3 @ '' '' @ descr)
                     (Some OpenInRemote)
                     (Some [ArgUndefined, commandArgs])))))"

section \<open>\<open>RemotesQuickPick.show\<close> (lines 153 to 181)\<close>

text \<open>
  \<open>remotes.map\<close> calls the constructor on each remote in order; the first one that throws
  ends the call.
\<close>

fun map_items :: "('a \<Rightarrow> fault + 'b) \<Rightarrow> 'a list \<Rightarrow> fault + 'b list" where
  "map_items f [] = Inr []"
| "map_items f (x # xs) =
     (case f x of
        Inl e \<Rightarrow> Inl e
      | Inr y \<Rightarrow> (case map_items f xs of Inl e \<Rightarrow> Inl e | Inr ys \<Rightarrow> Inr (y # ys)))"

text \<open>Lines 161 to 167: the list handed to \<open>window.showQuickPick\<close>.\<close>

definition show_items ::
  "Collaborators \<Rightarrow> GitRemote list \<Rightarrow> RemoteResource \<Rightarrow> bool option
     \<Rightarrow> CommandQuickPickItem option \<Rightarrow> fault + QuickPickItem list" where
  "show_items E remotes resource clipboard goBackCommand =
     (case map_items (\<lambda>r. OpenRemoteCommandQuickPickItem E r resource clipboard) remotes of
        Inl e \<Rightarrow> Inl e
      | Inr items \<Rightarrow>
          Inr (case goBackCommand of
                 Some g \<Rightarrow> CommandItem g # items
               | None \<Rightarrow> items))"

text \<open>
  Lines 154 to 180. The promise either rejects with the fault or resolves to the pick;
  \<open>None\<close> is \<open>undefined\<close>.
\<close>

definition show_quickpick ::
  "Collaborators \<Rightarrow> GitRemote list \<Rightarrow> string \<Rightarrow> RemoteResource \<Rightarrow> bool option
     \<Rightarrow> CommandQuickPickItem option \<Rightarrow> fault + QuickPickItem option" where
  "show_quickpick E remotes placeHolder_text resource clipboard goBackCommand =
     (case show_items E remotes resource clipboard goBackCommand of
        Inl e \<Rightarrow> Inl e
      | Inr items \<Rightarrow>
          (let pick = showQuickPick E items
                 \<lparr>placeHolder = placeHolder_text, ignoreFocusOut = getQuickPickIgnoreFocusOut E\<rparr>
           in if pick = None then Inr None else Inr pick))"

section \<open>Sample collaborators and remotes\<close>

text \<open>
  One concrete choice of the collaborators, on which the theorems below are evaluated:
  the resource names of the six variants, a seven character short sha, the last path
  segment as base name, blanks as padding and ASCII stand-ins for the glyphs. The sample
  list widget answers with the first item shown, \<open>dismissingCollaborators\<close> with nothing
  and \<open>lastItemCollaborators\<close> with the last item shown.
\<close>

fun sampleName :: "RemoteResource \<Rightarrow> string" where
  "sampleName (Branch b) = ''Branch''"
| "sampleName Branches = ''Branches''"
| "sampleName (Commit s) = ''Commit''"
| "sampleName (File f) = ''File''"
| "sampleName Repo = ''Repository''"
| "sampleName (Revision f s c) = ''Revision''"
| "sampleName Unrecognized = []"

definition sampleCollaborators :: Collaborators where
  "sampleCollaborators =
     \<lparr>getNameFromRemoteResource = sampleName,
      shortenSha = take 7,
      basename = (\<lambda>p. rev (takeWhile (\<lambda>c. c \<noteq> CHR ''/'') (rev p))),
      pad = (\<lambda>s m n. replicate m CHR '' '' @ s @ replicate n CHR '' ''),
      Dash = ''-'',
      Dot = ''*'',
      Space = '' '',
      Ellipsis = ''...'',
      getQuickPickIgnoreFocusOut = False,
      showQuickPick = (\<lambda>items opts. case items of [] \<Rightarrow> None | x # _ \<Rightarrow> Some x)\<rparr>"

definition dismissingCollaborators :: Collaborators where
  "dismissingCollaborators = sampleCollaborators\<lparr>showQuickPick := (\<lambda>items opts. None)\<rparr>"

definition lastItemCollaborators :: Collaborators where
  "lastItemCollaborators =
     sampleCollaborators\<lparr>showQuickPick :=
       (\<lambda>items opts. case rev items of [] \<Rightarrow> None | x # _ \<Rightarrow> Some x)\<rparr>"

abbreviation remoteOf :: "string \<Rightarrow> string \<Rightarrow> bool \<Rightarrow> GitRemote" where
  "remoteOf n p d \<equiv> \<lparr>provider = Some \<lparr>name = n, path = p\<rparr>, default_flag = d\<rparr>"

abbreviation bareRemote :: "bool \<Rightarrow> GitRemote" where
  "bareRemote d \<equiv> \<lparr>provider = None, default_flag = d\<rparr>"

abbreviation commitOf :: "string \<Rightarrow> string \<Rightarrow> string \<Rightarrow> GitLogCommit" where
  "commitOf st s ps \<equiv>
     \<lparr>isFile = True, status = Some st, sha = s, previousSha = Some ps,
      shortSha = take 7 s, previousShortSha = Some (take 7 ps)\<rparr>"

section \<open>Auxiliary facts\<close>


lemma find_none: "find P xs = None \<longleftrightarrow> (\<forall>x\<in>set xs. \<not> P x)"
  by (auto simp: find_None_iff)

section \<open>The remote selected by the consolidated item\<close>



section \<open>Facts about the consolidated constructor\<close>

lemma every_sameProvider_head:
  "provider r0 = Some p0 \<Longrightarrow>
     every_sameProvider (Some r0) xs
       = Inr (\<forall>r\<in>set xs. \<exists>p. provider r = Some p \<and> name p = name p0)"
  by (induction xs) (auto split: option.splits)

lemma providerName_Cons:
  "providerName (r0 # rs) =
     Inr (case provider r0 of
            None \<Rightarrow> ''Remote''
          | Some p0 \<Rightarrow>
              if \<forall>r\<in>set rs. \<exists>p. provider r = Some p \<and> name p = name p0
              then name p0 else ''Remote'')"
  by (cases "provider r0") (auto simp: providerName_def every_sameProvider_head)

lemma providerName_Nil: "providerName [] = Inl TypeError"
  by (simp add: providerName_def)

lemma selectRemote_Nil: "selectRemote [] = None"
  by (simp add: selectRemote_def)

lemma build_selected:
  "selectRemote remotes = Some r \<Longrightarrow> provider r = Some p \<Longrightarrow>
     OpenRemotesCommandQuickPickItem E remotes resource goBackCommand =
       (fst (describe E resource),
        Inr (CommandQuickPickItem
          (''$(link-external) Open '' @ getNameFromRemoteResource E resource @ '' on '' @ name p)
          (pad E (Dash E) 2 3 @ '' $(repo) '' @ path p @ '' '' @ pad E (Dot E) 1 1
             @ '' '' @ snd (describe E resource))
          (Some OpenInRemote)
          (Some [ArgUndefined,
             OpenInRemoteCommandArgs remotes (fst (describe E resource)) goBackCommand])))"
  by (simp add: OpenRemotesCommandQuickPickItem_def split: prod.splits)

lemma build_selected_bare:
  "selectRemote remotes = Some r \<Longrightarrow> provider r = None \<Longrightarrow>
     OpenRemotesCommandQuickPickItem E remotes resource goBackCommand =
       (fst (describe E resource), Inl TypeError)"
  by (simp add: OpenRemotesCommandQuickPickItem_def split: prod.splits)

lemma build_unselected:
  "selectRemote remotes = None \<Longrightarrow> providerName remotes = Inr prov \<Longrightarrow>
     OpenRemotesCommandQuickPickItem E remotes resource goBackCommand =
       (fst (describe E resource),
        Inr (CommandQuickPickItem
          (''$(link-external) Open '' @ getNameFromRemoteResource E resource @ '' on '' @ prov
             @ Ellipsis E)
          (pad E (Dash E) 2 3 @ '' '' @ snd (describe E resource))
          (Some OpenInRemote)
          (Some [ArgUndefined,
             OpenInRemoteCommandArgs remotes (fst (describe E resource)) goBackCommand])))"
  by (simp add: OpenRemotesCommandQuickPickItem_def split: prod.splits)

lemma build_empty:
  "OpenRemotesCommandQuickPickItem E [] resource goBackCommand =
     (fst (describe E resource), Inl TypeError)"
  by (simp add: OpenRemotesCommandQuickPickItem_def selectRemote_Nil providerName_Nil
      split: prod.splits)

lemma build_resource:
  "fst (OpenRemotesCommandQuickPickItem E remotes resource goBackCommand) = fst (describe E resource)"
  by (simp add: OpenRemotesCommandQuickPickItem_def Let_def split: prod.splits option.splits sum.splits)

section \<open>The consolidated item when no remote is selected\<close>

text \<open>
  Claim C2. With more than one remote and none flagged default the constructor produces
  an item. Its label names the shared provider name when every remote has a provider of
  that one name, and \<open>Remote\<close> otherwise; either way the label ends with the ellipsis
  glyph. Its description is the padded dash, a blank and the long description of the
  resource: nothing of any remote, so no provider path, enters it.
\<close>

theorem consolidated_without_default:
  assumes several: "1 < length remotes"
    and unflagged: "\<forall>r\<in>set remotes. \<not> default_flag r"
  shows "\<exists>item.
      snd (OpenRemotesCommandQuickPickItem E remotes resource goBackCommand) = Inr item
    \<and> (\<forall>n. (\<forall>r\<in>set remotes. \<exists>p. provider r = Some p \<and> name p = n) \<longrightarrow>
          label item = ''$(link-external) Open '' @ getNameFromRemoteResource E resource
                         @ '' on '' @ n @ Ellipsis E)
    \<and> (\<not> (\<exists>n. \<forall>r\<in>set remotes. \<exists>p. provider r = Some p \<and> name p = n) \<longrightarrow>
          label item = ''$(link-external) Open '' @ getNameFromRemoteResource E resource
                         @ '' on '' @ ''Remote'' @ Ellipsis E)
    \<and> suffix (Ellipsis E) (label item)
    \<and> description item = pad E (Dash E) 2 3 @ '' '' @ snd (describe E resource)"
proof -
  from several obtain r0 rs where remotes: "remotes = r0 # rs"
    by (cases remotes) auto
  from several unflagged have none: "selectRemote remotes = None"
    by (simp add: selectRemote_def find_none)
  define prov where "prov =
    (case provider r0 of
       None \<Rightarrow> ''Remote''
     | Some p0 \<Rightarrow>
         if \<forall>r\<in>set rs. \<exists>p. provider r = Some p \<and> name p = name p0
         then name p0 else ''Remote'')"
  have pn: "providerName remotes = Inr prov"
    by (simp add: remotes prov_def providerName_Cons)
  let ?item = "CommandQuickPickItem
       (''$(link-external) Open '' @ getNameFromRemoteResource E resource @ '' on '' @ prov
          @ Ellipsis E)
       (pad E (Dash E) 2 3 @ '' '' @ snd (describe E resource))
       (Some OpenInRemote)
       (Some [ArgUndefined,
          OpenInRemoteCommandArgs remotes (fst (describe E resource)) goBackCommand])"
  have built: "snd (OpenRemotesCommandQuickPickItem E remotes resource goBackCommand) = Inr ?item"
    by (simp add: build_unselected [OF none pn])
  have shared: "prov = n" if "\<forall>r\<in>set remotes. \<exists>p. provider r = Some p \<and> name p = n" for n
    using that by (auto simp: remotes prov_def)
  have generic: "prov = ''Remote''"
    if "\<not> (\<exists>n. \<forall>r\<in>set remotes. \<exists>p. provider r = Some p \<and> name p = n)"
  proof (cases "provider r0")
    case None
    then show ?thesis by (simp add: prov_def)
  next
    case (Some p0)
    from that have "\<not> (\<forall>r\<in>set remotes. \<exists>p. provider r = Some p \<and> name p = name p0)"
      by blast
    with Some have differ: "\<not> (\<forall>r\<in>set rs. \<exists>p. provider r = Some p \<and> name p = name p0)"
      by (simp add: remotes)
    from Some have "prov =
        (if \<forall>r\<in>set rs. \<exists>p. provider r = Some p \<and> name p = name p0
         then name p0 else ''Remote'')"
      by (simp add: prov_def)
    with differ show ?thesis by (simp only: if_False)
  qed
  have ends: "suffix (Ellipsis E) (label ?item)"
    by (simp add: suffix_def)
  show ?thesis
    using built shared generic ends by (intro exI [of _ ?item]) simp
qed

theorem consolidated_without_default_witness:
  "(\<exists>item.
      snd (OpenRemotesCommandQuickPickItem sampleCollaborators
             [remoteOf ''GitHub'' ''org/repo'' False, remoteOf ''GitLab'' ''org/repo'' False,
              remoteOf ''GitHub'' ''org/fork'' False]
             (File ''src/app.ts'') None) = Inr item
      \<and> label item = ''$(link-external) Open File on Remote...''
      \<and> description item = ''  -    $(file-text) app.ts'')
   \<and> (\<exists>item.
      snd (OpenRemotesCommandQuickPickItem sampleCollaborators
             [remoteOf ''GitHub'' ''org/repo'' False, remoteOf ''GitHub'' ''org/mirror'' False,
              remoteOf ''GitHub'' ''org/fork'' False]
             (File ''src/app.ts'') None) = Inr item
      \<and> label item = ''$(link-external) Open File on GitHub...''
      \<and> description item = ''  -    $(file-text) app.ts'')"
proof (intro conjI)
  let ?xs = "[remoteOf ''GitHub'' ''org/repo'' False, remoteOf ''GitLab'' ''org/repo'' False,
              remoteOf ''GitHub'' ''org/fork'' False]"
  have several: "1 < length ?xs" by simp
  have unflagged: "\<forall>r\<in>set ?xs. \<not> default_flag r" by simp
  have mixed: "\<not> (\<exists>n. \<forall>r\<in>set ?xs. \<exists>p. provider r = Some p \<and> name p = n)" by simp
  from consolidated_without_default [OF several unflagged, of sampleCollaborators
      "File ''src/app.ts''" None] mixed
  obtain item where
    "snd (OpenRemotesCommandQuickPickItem sampleCollaborators ?xs (File ''src/app.ts'') None)
       = Inr item"
    and "label item = ''$(link-external) Open '' @ getNameFromRemoteResource sampleCollaborators
           (File ''src/app.ts'') @ '' on '' @ ''Remote'' @ Ellipsis sampleCollaborators"
    and "description item = pad sampleCollaborators (Dash sampleCollaborators) 2 3 @ '' ''
           @ snd (describe sampleCollaborators (File ''src/app.ts''))"
    by blast
  then show "\<exists>item.
      snd (OpenRemotesCommandQuickPickItem sampleCollaborators ?xs (File ''src/app.ts'') None)
        = Inr item
      \<and> label item = ''$(link-external) Open File on Remote...''
      \<and> description item = ''  -    $(file-text) app.ts''"
    by (intro exI [of _ item]) (simp add: sampleCollaborators_def numeral_2_eq_2 numeral_3_eq_3)
next
  let ?ys = "[remoteOf ''GitHub'' ''org/repo'' False, remoteOf ''GitHub'' ''org/mirror'' False,
              remoteOf ''GitHub'' ''org/fork'' False]"
  have several: "1 < length ?ys" by simp
  have unflagged: "\<forall>r\<in>set ?ys. \<not> default_flag r" by simp
  have same: "\<forall>r\<in>set ?ys. \<exists>p. provider r = Some p \<and> name p = ''GitHub''" by simp
  from consolidated_without_default [OF several unflagged, of sampleCollaborators
      "File ''src/app.ts''" None] same
  obtain item where
    "snd (OpenRemotesCommandQuickPickItem sampleCollaborators ?ys (File ''src/app.ts'') None)
       = Inr item"
    and "label item = ''$(link-external) Open '' @ getNameFromRemoteResource sampleCollaborators
           (File ''src/app.ts'') @ '' on '' @ ''GitHub'' @ Ellipsis sampleCollaborators"
    and "description item = pad sampleCollaborators (Dash sampleCollaborators) 2 3 @ '' ''
           @ snd (describe sampleCollaborators (File ''src/app.ts''))"
    by blast
  then show "\<exists>item.
      snd (OpenRemotesCommandQuickPickItem sampleCollaborators ?ys (File ''src/app.ts'') None)
        = Inr item
      \<and> label item = ''$(link-external) Open File on GitHub...''
      \<and> description item = ''  -    $(file-text) app.ts''"
    by (intro exI [of _ item]) (simp add: sampleCollaborators_def numeral_2_eq_2 numeral_3_eq_3)
qed

section \<open>The shape of every item the consolidated constructor produces\<close>

lemma build_cases:
  "snd (OpenRemotesCommandQuickPickItem E remotes resource goBackCommand) = Inl TypeError
   \<or> snd (OpenRemotesCommandQuickPickItem E remotes resource goBackCommand) =
       Inr (CommandQuickPickItem
         (label (projr (snd (OpenRemotesCommandQuickPickItem E remotes resource goBackCommand))))
         (description (projr (snd (OpenRemotesCommandQuickPickItem E remotes resource goBackCommand))))
         (Some OpenInRemote)
         (Some [ArgUndefined,
            OpenInRemoteCommandArgs remotes (fst (describe E resource)) goBackCommand]))"
proof (cases "selectRemote remotes")
  case None
  show ?thesis
  proof (cases remotes)
    case Nil
    then show ?thesis by (simp add: build_empty)
  next
    case (Cons r0 rs)
    then obtain prov where "providerName remotes = Inr prov"
      by (simp add: providerName_Cons)
    from build_unselected [OF None this] show ?thesis by simp
  qed
next
  case (Some r)
  show ?thesis
  proof (cases "provider r")
    case None
    from build_selected_bare [OF Some None] show ?thesis by simp
  next
    case (Some p)
    from build_selected [OF \<open>selectRemote remotes = Some r\<close> Some] show ?thesis by simp
  qed
qed

section \<open>The consolidated item when a remote is selected, and the bound command\<close>

text \<open>
  Claim C6. When a remote is selected (the first default of several, or the single
  remote) and it has a provider, the item's label is the \<open>$(link-external)\<close> glyph code,
  \<open>Open\<close>, the resource name, \<open>on\<close> and the provider's name, and its description is the
  padded dash, \<open>$(repo)\<close>, the provider's path, the padded dot and the long description of
  the resource. When no remote is selected and the list is not empty an item is produced
  as well. Every item the constructor produces, in either branch, is bound to
  \<open>Commands.OpenInRemote\<close> with the arguments \<open>[undefined, commandArgs]\<close>, where
  \<open>commandArgs\<close> holds the full remotes list, the resource object (as the \<open>switch\<close> left
  it) and the go-back item.
\<close>

theorem consolidated_with_selected_remote:
  "(selectRemote remotes = Some r \<and> provider r = Some p \<longrightarrow>
      snd (OpenRemotesCommandQuickPickItem E remotes resource goBackCommand) =
        Inr (CommandQuickPickItem
          (''$(link-external) Open '' @ getNameFromRemoteResource E resource @ '' on '' @ name p)
          (pad E (Dash E) 2 3 @ '' $(repo) '' @ path p @ '' '' @ pad E (Dot E) 1 1
             @ '' '' @ snd (describe E resource))
          (Some OpenInRemote)
          (Some [ArgUndefined,
             OpenInRemoteCommandArgs remotes (fst (describe E resource)) goBackCommand])))
   \<and> (selectRemote remotes = None \<and> remotes \<noteq> [] \<longrightarrow>
        (\<exists>item. snd (OpenRemotesCommandQuickPickItem E remotes resource goBackCommand) = Inr item))
   \<and> (\<forall>item. snd (OpenRemotesCommandQuickPickItem E remotes resource goBackCommand) = Inr item \<longrightarrow>
        command item = Some OpenInRemote
        \<and> args item = Some [ArgUndefined,
             OpenInRemoteCommandArgs remotes (fst (describe E resource)) goBackCommand])"
proof (intro conjI impI allI)
  assume "selectRemote remotes = Some r \<and> provider r = Some p"
  then show "snd (OpenRemotesCommandQuickPickItem E remotes resource goBackCommand) =
        Inr (CommandQuickPickItem
          (''$(link-external) Open '' @ getNameFromRemoteResource E resource @ '' on '' @ name p)
          (pad E (Dash E) 2 3 @ '' $(repo) '' @ path p @ '' '' @ pad E (Dot E) 1 1
             @ '' '' @ snd (describe E resource))
          (Some OpenInRemote)
          (Some [ArgUndefined,
             OpenInRemoteCommandArgs remotes (fst (describe E resource)) goBackCommand]))"
    by (simp add: build_selected)
next
  assume unselected: "selectRemote remotes = None \<and> remotes \<noteq> []"
  then obtain r0 rs where "remotes = r0 # rs" by (cases remotes) auto
  then obtain prov where "providerName remotes = Inr prov"
    by (simp add: providerName_Cons)
  with unselected
  show "\<exists>item. snd (OpenRemotesCommandQuickPickItem E remotes resource goBackCommand) = Inr item"
    by (simp add: build_unselected)
next
  fix item
  assume "snd (OpenRemotesCommandQuickPickItem E remotes resource goBackCommand) = Inr item"
  with build_cases [of E remotes resource goBackCommand]
  have "item = CommandQuickPickItem
         (label (projr (snd (OpenRemotesCommandQuickPickItem E remotes resource goBackCommand))))
         (description (projr (snd (OpenRemotesCommandQuickPickItem E remotes resource goBackCommand))))
         (Some OpenInRemote)
         (Some [ArgUndefined,
            OpenInRemoteCommandArgs remotes (fst (describe E resource)) goBackCommand])"
    by auto
  then have c: "command item = Some OpenInRemote"
    and a: "args item = Some [ArgUndefined,
            OpenInRemoteCommandArgs remotes (fst (describe E resource)) goBackCommand]"
    by (metis CommandQuickPickItem.sel(3), metis CommandQuickPickItem.sel(4))
  from c show "command item = Some OpenInRemote" .
  from a show "args item = Some [ArgUndefined,
             OpenInRemoteCommandArgs remotes (fst (describe E resource)) goBackCommand]" .
qed

theorem consolidated_with_selected_remote_witness:
  "snd (OpenRemotesCommandQuickPickItem sampleCollaborators
          [remoteOf ''GitHub'' ''org/repo'' False, remoteOf ''GitLab'' ''team/repo'' True]
          Repo (Some (CommandQuickPickItem ''go back'' [] None None)))
     = Inr (CommandQuickPickItem
         ''$(link-external) Open Repository on GitLab''
         ''  -    $(repo) team/repo  *  $(repo) Repository''
         (Some OpenInRemote)
         (Some [ArgUndefined,
            OpenInRemoteCommandArgs
              [remoteOf ''GitHub'' ''org/repo'' False, remoteOf ''GitLab'' ''team/repo'' True]
              Repo (Some (CommandQuickPickItem ''go back'' [] None None))]))
   \<and> (\<exists>item.
        snd (OpenRemotesCommandQuickPickItem sampleCollaborators
               [remoteOf ''GitHub'' ''org/repo'' False, remoteOf ''GitLab'' ''team/repo'' False]
               Repo None) = Inr item
        \<and> command item = Some OpenInRemote
        \<and> args item = Some [ArgUndefined,
            OpenInRemoteCommandArgs
              [remoteOf ''GitHub'' ''org/repo'' False, remoteOf ''GitLab'' ''team/repo'' False]
              Repo None])"
proof (intro conjI)
  let ?xs = "[remoteOf ''GitHub'' ''org/repo'' False, remoteOf ''GitLab'' ''team/repo'' True]"
  let ?goBack = "Some (CommandQuickPickItem ''go back'' [] None None)"
  have selected: "selectRemote ?xs = Some (remoteOf ''GitLab'' ''team/repo'' True)
      \<and> provider (remoteOf ''GitLab'' ''team/repo'' True) = Some \<lparr>name = ''GitLab'', path = ''team/repo''\<rparr>"
    by (simp add: selectRemote_def)
  from consolidated_with_selected_remote [of ?xs "remoteOf ''GitLab'' ''team/repo'' True"
      "\<lparr>name = ''GitLab'', path = ''team/repo''\<rparr>" sampleCollaborators Repo ?goBack] selected
  have "snd (OpenRemotesCommandQuickPickItem sampleCollaborators ?xs Repo ?goBack) =
        Inr (CommandQuickPickItem
          (''$(link-external) Open '' @ getNameFromRemoteResource sampleCollaborators Repo
             @ '' on '' @ name \<lparr>name = ''GitLab'', path = ''team/repo''\<rparr>)
          (pad sampleCollaborators (Dash sampleCollaborators) 2 3 @ '' $(repo) ''
             @ path \<lparr>name = ''GitLab'', path = ''team/repo''\<rparr> @ '' ''
             @ pad sampleCollaborators (Dot sampleCollaborators) 1 1
             @ '' '' @ snd (describe sampleCollaborators Repo))
          (Some OpenInRemote)
          (Some [ArgUndefined,
             OpenInRemoteCommandArgs ?xs (fst (describe sampleCollaborators Repo)) ?goBack]))"
    by blast
  then show "snd (OpenRemotesCommandQuickPickItem sampleCollaborators ?xs Repo ?goBack)
     = Inr (CommandQuickPickItem
         ''$(link-external) Open Repository on GitLab''
         ''  -    $(repo) team/repo  *  $(repo) Repository''
         (Some OpenInRemote)
         (Some [ArgUndefined, OpenInRemoteCommandArgs ?xs Repo ?goBack]))"
    by (simp add: sampleCollaborators_def numeral_2_eq_2 numeral_3_eq_3)
next
  let ?ys = "[remoteOf ''GitHub'' ''org/repo'' False, remoteOf ''GitLab'' ''team/repo'' False]"
  have unselected: "selectRemote ?ys = None \<and> ?ys \<noteq> []"
    by (simp add: selectRemote_def)
  from consolidated_with_selected_remote [of ?ys undefined undefined sampleCollaborators Repo None]
    unselected
  obtain item where
    built: "snd (OpenRemotesCommandQuickPickItem sampleCollaborators ?ys Repo None) = Inr item"
    and bound: "command item = Some OpenInRemote
        \<and> args item = Some [ArgUndefined,
             OpenInRemoteCommandArgs ?ys (fst (describe sampleCollaborators Repo)) None]"
    by blast
  then show "\<exists>item.
        snd (OpenRemotesCommandQuickPickItem sampleCollaborators ?ys Repo None) = Inr item
        \<and> command item = Some OpenInRemote
        \<and> args item = Some [ArgUndefined, OpenInRemoteCommandArgs ?ys Repo None]"
    by (intro exI [of _ item]) simp
qed

section \<open>When the consolidated constructor throws\<close>

text \<open>
  Claim C10, as stated, fails for a list whose first remote has no provider when no
  remote is selected: the callback of \<open>every\<close> tests \<open>r.provider !== undefined\<close> first, so
  it is false at the first remote, \<open>remote!.provider!.name\<close> is never evaluated and the
  item is produced with the label \<open>Remote\<close>. Here the first of two unflagged remotes has
  no provider.
\<close>

theorem bare_first_remote_counterexample:
  "selectRemote [bareRemote False, remoteOf ''GitHub'' ''org/repo'' False] = None
   \<and> provider ([bareRemote False, remoteOf ''GitHub'' ''org/repo'' False] ! 0) = None
   \<and> snd (OpenRemotesCommandQuickPickItem sampleCollaborators
            [bareRemote False, remoteOf ''GitHub'' ''org/repo'' False] Repo None)
       = Inr (CommandQuickPickItem
           ''$(link-external) Open Repository on Remote...''
           ''  -    $(repo) Repository''
           (Some OpenInRemote)
           (Some [ArgUndefined,
              OpenInRemoteCommandArgs [bareRemote False, remoteOf ''GitHub'' ''org/repo'' False]
                Repo None]))"
  by (simp add: OpenRemotesCommandQuickPickItem_def selectRemote_def providerName_def
      sampleCollaborators_def numeral_2_eq_2 numeral_3_eq_3)

text \<open>
  Claim C10, amended. The consolidated constructor throws exactly when the remotes list
  is empty (then \<open>remotes[0]\<close> is absent and its provider is read) or the selected remote
  (the first default of several, or the single remote) has no provider. When no remote is
  selected and the list is not empty it produces an item, whether or not the first
  remote has a provider.
\<close>

theorem consolidated_faults:
  "snd (OpenRemotesCommandQuickPickItem E remotes resource goBackCommand) = Inl TypeError
   \<longleftrightarrow> remotes = [] \<or> (\<exists>r. selectRemote remotes = Some r \<and> provider r = None)"
proof (cases "selectRemote remotes")
  case None
  show ?thesis
  proof (cases remotes)
    case Nil
    then show ?thesis by (simp add: build_empty)
  next
    case (Cons r0 rs)
    then obtain prov where "providerName remotes = Inr prov"
      by (simp add: providerName_Cons)
    from build_unselected [OF None this] None Cons show ?thesis by simp
  qed
next
  case (Some r)
  then have nonempty: "remotes \<noteq> []" by (auto simp: selectRemote_Nil)
  show ?thesis
  proof (cases "provider r")
    case None
    from build_selected_bare [OF Some None] Some None show ?thesis by simp
  next
    case (Some p)
    from build_selected [OF \<open>selectRemote remotes = Some r\<close> Some]
      \<open>selectRemote remotes = Some r\<close> Some nonempty
    show ?thesis by simp
  qed
qed

theorem consolidated_faults_witness:
  "snd (OpenRemotesCommandQuickPickItem sampleCollaborators [] Repo None) = Inl TypeError
   \<and> snd (OpenRemotesCommandQuickPickItem sampleCollaborators [bareRemote False] Repo None)
       = Inl TypeError
   \<and> snd (OpenRemotesCommandQuickPickItem sampleCollaborators
            [remoteOf ''GitHub'' ''org/repo'' False, bareRemote True] Repo None) = Inl TypeError
   \<and> snd (OpenRemotesCommandQuickPickItem sampleCollaborators
            [bareRemote False, bareRemote False] Repo None) \<noteq> Inl TypeError"
proof (intro conjI)
  show "snd (OpenRemotesCommandQuickPickItem sampleCollaborators [] Repo None) = Inl TypeError"
    using consolidated_faults [of sampleCollaborators "[]" Repo None] by blast
next
  have "selectRemote [bareRemote False] = Some (bareRemote False)
      \<and> provider (bareRemote False) = None"
    by (simp add: selectRemote_def)
  then show "snd (OpenRemotesCommandQuickPickItem sampleCollaborators [bareRemote False] Repo None)
       = Inl TypeError"
    using consolidated_faults [of sampleCollaborators "[bareRemote False]" Repo None] by blast
next
  let ?xs = "[remoteOf ''GitHub'' ''org/repo'' False, bareRemote True]"
  have "selectRemote ?xs = Some (bareRemote True) \<and> provider (bareRemote True) = None"
    by (simp add: selectRemote_def)
  then show "snd (OpenRemotesCommandQuickPickItem sampleCollaborators ?xs Repo None) = Inl TypeError"
    using consolidated_faults [of sampleCollaborators ?xs Repo None] by blast
next
  let ?ys = "[bareRemote False, bareRemote False]"
  have "?ys \<noteq> [] \<and> selectRemote ?ys = None"
    by (simp add: selectRemote_def)
  then show "snd (OpenRemotesCommandQuickPickItem sampleCollaborators ?ys Repo None) \<noteq> Inl TypeError"
    using consolidated_faults [of sampleCollaborators ?ys Repo None] by simp
qed

section \<open>Facts about descriptions and faults\<close>

lemma sublist_middle: "ys = ps @ xs @ ss \<Longrightarrow> sublist xs ys"
  by simp

lemma build_fault_any_resource:
  assumes "snd (OpenRemotesCommandQuickPickItem E remotes resource goBackCommand) = Inl e"
  shows "snd (OpenRemotesCommandQuickPickItem E' remotes resource' goBackCommand') = Inl e"
proof (cases "selectRemote remotes")
  case None
  show ?thesis
  proof (cases remotes)
    case Nil
    with assms show ?thesis by (simp add: build_empty)
  next
    case (Cons r0 rs)
    then obtain prov where "providerName remotes = Inr prov"
      by (simp add: providerName_Cons)
    from build_unselected [OF None this] assms show ?thesis by simp
  qed
next
  case (Some r)
  show ?thesis
  proof (cases "provider r")
    case None
    from build_selected_bare [OF Some None] assms show ?thesis by simp
  next
    case (Some p)
    from build_selected [OF \<open>selectRemote remotes = Some r\<close> Some] assms show ?thesis by simp
  qed
qed

section \<open>Describing a revision with a file commit\<close>

text \<open>
  Claim C3. For a \<open>Revision\<close> whose commit is a file record (\<open>isFile\<close>): if the commit's
  status is \<open>D\<close>, the resource's sha becomes the commit's \<open>previousSha\<close> and the description
  is the base file name, \<open>in\<close>, the commit's \<open>previousShortSha\<close> and the annotation
  \<open>(deleted in ...)\<close> around the commit's \<open>shortSha\<close>; otherwise the resource's sha becomes
  the commit's \<open>sha\<close> and the description is the base file name, \<open>in\<close> and the commit's
  \<open>shortSha\<close>. The resource the constructor leaves behind is the one described. A
  previous short sha that is absent is rendered by the template as \<open>undefined\<close>.
\<close>

theorem describe_revision_file_commit:
  assumes isfile: "isFile c"
  shows "(status c = Some ''D'' \<longrightarrow>
            describe E (Revision f s (Some c)) =
              (Revision f (previousSha c) (Some c),
               ''$(file-text) '' @ basename E f @ '' in '' @ Space E @ ''$(git-commit) ''
                 @ interpolate (previousShortSha c) @ '' (deleted in '' @ Space E
                 @ ''$(git-commit) '' @ shortSha c @ '')'')
          \<and> fst (OpenRemotesCommandQuickPickItem E remotes (Revision f s (Some c)) goBackCommand)
              = Revision f (previousSha c) (Some c)
          \<and> (\<forall>ps. previousShortSha c = Some ps \<longrightarrow>
                sublist ps (snd (describe E (Revision f s (Some c)))))
          \<and> sublist ('' (deleted in '' @ Space E @ ''$(git-commit) '' @ shortSha c @ '')'')
                (snd (describe E (Revision f s (Some c)))))
       \<and> (status c \<noteq> Some ''D'' \<longrightarrow>
            describe E (Revision f s (Some c)) =
              (Revision f (Some (sha c)) (Some c),
               ''$(file-text) '' @ basename E f @ '' in '' @ Space E @ ''$(git-commit) ''
                 @ shortSha c)
          \<and> fst (OpenRemotesCommandQuickPickItem E remotes (Revision f s (Some c)) goBackCommand)
              = Revision f (Some (sha c)) (Some c)
          \<and> sublist (shortSha c) (snd (describe E (Revision f s (Some c)))))"
proof (intro conjI impI allI)
  assume deleted: "status c = Some ''D''"
  from isfile deleted
  show eq: "describe E (Revision f s (Some c)) =
              (Revision f (previousSha c) (Some c),
               ''$(file-text) '' @ basename E f @ '' in '' @ Space E @ ''$(git-commit) ''
                 @ interpolate (previousShortSha c) @ '' (deleted in '' @ Space E
                 @ ''$(git-commit) '' @ shortSha c @ '')'')"
    by simp
  then show "fst (OpenRemotesCommandQuickPickItem E remotes (Revision f s (Some c)) goBackCommand)
              = Revision f (previousSha c) (Some c)"
    by (simp add: build_resource)
  have shape: "snd (describe E (Revision f s (Some c))) =
      (''$(file-text) '' @ basename E f @ '' in '' @ Space E @ ''$(git-commit) '')
        @ interpolate (previousShortSha c)
        @ ('' (deleted in '' @ Space E @ ''$(git-commit) '' @ shortSha c @ '')'')"
    using eq by simp
  show "sublist ps (snd (describe E (Revision f s (Some c))))"
    if "previousShortSha c = Some ps" for ps
    using shape that by (intro sublist_middle [OF shape [unfolded that interpolate.simps]])
  have shape': "snd (describe E (Revision f s (Some c))) =
      (''$(file-text) '' @ basename E f @ '' in '' @ Space E @ ''$(git-commit) ''
          @ interpolate (previousShortSha c))
        @ ('' (deleted in '' @ Space E @ ''$(git-commit) '' @ shortSha c @ '')'') @ []"
    using eq by simp
  show "sublist ('' (deleted in '' @ Space E @ ''$(git-commit) '' @ shortSha c @ '')'')
          (snd (describe E (Revision f s (Some c))))"
    by (rule sublist_middle [OF shape'])
next
  assume kept: "status c \<noteq> Some ''D''"
  from isfile kept
  show eq: "describe E (Revision f s (Some c)) =
              (Revision f (Some (sha c)) (Some c),
               ''$(file-text) '' @ basename E f @ '' in '' @ Space E @ ''$(git-commit) ''
                 @ shortSha c)"
    by simp
  then show "fst (OpenRemotesCommandQuickPickItem E remotes (Revision f s (Some c)) goBackCommand)
              = Revision f (Some (sha c)) (Some c)"
    by (simp add: build_resource)
  have shape: "snd (describe E (Revision f s (Some c))) =
      (''$(file-text) '' @ basename E f @ '' in '' @ Space E @ ''$(git-commit) '')
        @ shortSha c @ []"
    using eq by simp
  show "sublist (shortSha c) (snd (describe E (Revision f s (Some c))))"
    by (rule sublist_middle [OF shape])
qed


theorem describe_revision_file_commit_witness:
  "describe sampleCollaborators
      (Revision ''src/app.ts'' (Some ''bbb222'') (Some (commitOf ''D'' ''bbb222'' ''aaa111'')))
     = (Revision ''src/app.ts'' (Some ''aaa111'') (Some (commitOf ''D'' ''bbb222'' ''aaa111'')),
        ''$(file-text) app.ts in  $(git-commit) aaa111 (deleted in  $(git-commit) bbb222)'')
   \<and> sublist ''aaa111''
        (snd (describe sampleCollaborators
           (Revision ''src/app.ts'' (Some ''bbb222'') (Some (commitOf ''D'' ''bbb222'' ''aaa111'')))))
   \<and> describe sampleCollaborators
        (Revision ''src/app.ts'' None (Some (commitOf ''M'' ''ccc333'' ''bbb222'')))
     = (Revision ''src/app.ts'' (Some ''ccc333'') (Some (commitOf ''M'' ''ccc333'' ''bbb222'')),
        ''$(file-text) app.ts in  $(git-commit) ccc333'')
   \<and> sublist ''ccc333''
        (snd (describe sampleCollaborators
           (Revision ''src/app.ts'' None (Some (commitOf ''M'' ''ccc333'' ''bbb222'')))))"
proof -
  let ?d = "commitOf ''D'' ''bbb222'' ''aaa111''"
  let ?m = "commitOf ''M'' ''ccc333'' ''bbb222''"
  have d_file: "isFile ?d" and m_file: "isFile ?m" by simp_all
  have d_status: "status ?d = Some ''D''" and m_status: "status ?m \<noteq> Some ''D''" by simp_all
  have d_short: "previousShortSha ?d = Some ''aaa111''" by simp
  note deleted = describe_revision_file_commit [OF d_file, of sampleCollaborators
      "''src/app.ts''" "Some ''bbb222''" "[]" None, THEN conjunct1, rule_format, OF d_status]
  note kept = describe_revision_file_commit [OF m_file, of sampleCollaborators
      "''src/app.ts''" None "[]" None, THEN conjunct2, rule_format, OF m_status]
  from deleted have "describe sampleCollaborators (Revision ''src/app.ts'' (Some ''bbb222'') (Some ?d))
     = (Revision ''src/app.ts'' (Some ''aaa111'') (Some ?d),
        ''$(file-text) app.ts in  $(git-commit) aaa111 (deleted in  $(git-commit) bbb222)'')"
    by (simp add: sampleCollaborators_def)
  moreover from deleted d_short
  have "sublist ''aaa111''
      (snd (describe sampleCollaborators (Revision ''src/app.ts'' (Some ''bbb222'') (Some ?d))))"
    by blast
  moreover from kept
  have "describe sampleCollaborators (Revision ''src/app.ts'' None (Some ?m))
     = (Revision ''src/app.ts'' (Some ''ccc333'') (Some ?m),
        ''$(file-text) app.ts in  $(git-commit) ccc333'')"
    by (simp add: sampleCollaborators_def)
  moreover from kept
  have "sublist ''ccc333''
      (snd (describe sampleCollaborators (Revision ''src/app.ts'' None (Some ?m))))"
    by simp
  ultimately show ?thesis by blast
qed

section \<open>What the constructors change\<close>

text \<open>
  Claim C4, as stated, fails: the resource's sha is also overwritten when the file commit
  does not indicate a deletion (line 82, \<open>resource.sha = resource.commit.sha\<close>). Here a
  revision at sha \<open>0123456\<close> with a modified (\<open>M\<close>) file commit \<open>ccc333\<close> comes back with
  the sha \<open>ccc333\<close>.
\<close>

theorem sha_overwritten_without_deletion_counterexample:
  "status (commitOf ''M'' ''ccc333'' ''bbb222'') \<noteq> Some ''D''
   \<and> fst (OpenRemotesCommandQuickPickItem sampleCollaborators
            [remoteOf ''GitHub'' ''org/repo'' False]
            (Revision ''src/app.ts'' (Some ''0123456'') (Some (commitOf ''M'' ''ccc333'' ''bbb222'')))
            None)
       = Revision ''src/app.ts'' (Some ''ccc333'') (Some (commitOf ''M'' ''ccc333'' ''bbb222''))
   \<and> fst (OpenRemotesCommandQuickPickItem sampleCollaborators
            [remoteOf ''GitHub'' ''org/repo'' False]
            (Revision ''src/app.ts'' (Some ''0123456'') (Some (commitOf ''M'' ''ccc333'' ''bbb222'')))
            None)
       \<noteq> Revision ''src/app.ts'' (Some ''0123456'') (Some (commitOf ''M'' ''ccc333'' ''bbb222''))"
  by (simp add: build_resource)

text \<open>
  Claim C4, amended. The consolidated constructor changes its resource argument in one
  case only, a \<open>Revision\<close> whose commit is a file record: the sha is overwritten with the
  commit's previous sha when the commit's status is \<open>D\<close> and with the commit's own sha
  otherwise, and the file name and the commit stay as they were. Every other resource is
  left as it is. The per-remote constructor keeps the remote, the resource and the
  clipboard flag it was given. No statement of the file assigns to the remotes array or
  to a remote (\<open>map\<close>, \<open>find\<close>, \<open>every\<close>, \<open>length\<close> and indexing read it; \<open>splice\<close>
  works on the array \<open>map\<close> returned), so the model has no updated remotes to return.
\<close>

theorem resolver_frame:
  "fst (OpenRemotesCommandQuickPickItem E remotes resource goBackCommand) =
     (case resource of
        Revision f s (Some c) \<Rightarrow>
          if isFile c
          then Revision f (if status c = Some ''D'' then previousSha c else Some (sha c)) (Some c)
          else resource
      | _ \<Rightarrow> resource)
   \<and> (\<forall>item remote' resource' clipboard'.
         OpenRemoteCommandQuickPickItem E remote resource clipboard
           = Inr (OpenRemoteItem item remote' resource' clipboard') \<longrightarrow>
         remote' = remote \<and> resource' = resource \<and> clipboard' = clipboard)"
proof (rule conjI)
  show "fst (OpenRemotesCommandQuickPickItem E remotes resource goBackCommand) =
     (case resource of
        Revision f s (Some c) \<Rightarrow>
          if isFile c
          then Revision f (if status c = Some ''D'' then previousSha c else Some (sha c)) (Some c)
          else resource
      | _ \<Rightarrow> resource)"
    by (cases "(E, resource)" rule: describe.cases) (simp_all add: build_resource)
next
  show "\<forall>item remote' resource' clipboard'.
         OpenRemoteCommandQuickPickItem E remote resource clipboard
           = Inr (OpenRemoteItem item remote' resource' clipboard') \<longrightarrow>
         remote' = remote \<and> resource' = resource \<and> clipboard' = clipboard"
    by (auto simp: OpenRemoteCommandQuickPickItem_def split: option.splits)
qed

theorem resolver_frame_witness:
  "fst (OpenRemotesCommandQuickPickItem sampleCollaborators [remoteOf ''GitHub'' ''org/repo'' False]
          (Revision ''src/app.ts'' (Some ''bbb222'') (Some (commitOf ''D'' ''bbb222'' ''aaa111'')))
          None)
     = Revision ''src/app.ts'' (Some ''aaa111'') (Some (commitOf ''D'' ''bbb222'' ''aaa111''))
   \<and> fst (OpenRemotesCommandQuickPickItem sampleCollaborators [] (File ''src/app.ts'') None)
     = File ''src/app.ts''"
  using resolver_frame [of sampleCollaborators "[remoteOf ''GitHub'' ''org/repo'' False]"
      "Revision ''src/app.ts'' (Some ''bbb222'') (Some (commitOf ''D'' ''bbb222'' ''aaa111''))" None,
      THEN conjunct1]
    resolver_frame [of sampleCollaborators "[]" "File ''src/app.ts''" None, THEN conjunct1]
  by simp

section \<open>The description never throws\<close>

text \<open>
  Claim C7. The \<open>switch\<close> has no throwing path: \<open>describe\<close> yields a description for
  every resource. An unrecognized variant gets the empty description; a \<open>Revision\<close> with
  neither sha nor commit, or with a commit that is not a file record and no sha, gets the
  base file name alone. Whether the consolidated constructor throws does not depend on
  the resource: if it throws for one resource it throws for every other one with the same
  remotes.
\<close>

theorem describe_total:
  "describe E Unrecognized = (Unrecognized, [])
   \<and> describe E (Revision f None None) = (Revision f None None, ''$(file-text) '' @ basename E f)
   \<and> (\<forall>c. \<not> isFile c \<longrightarrow>
         describe E (Revision f None (Some c))
           = (Revision f None (Some c), ''$(file-text) '' @ basename E f))
   \<and> (\<exists>resource' text. describe E resource = (resource', text))
   \<and> (\<forall>e. snd (OpenRemotesCommandQuickPickItem E remotes resource goBackCommand) = Inl e \<longrightarrow>
         (\<forall>other. snd (OpenRemotesCommandQuickPickItem E remotes other goBackCommand) = Inl e))"
proof (intro conjI allI impI)
  show "\<exists>resource' text. describe E resource = (resource', text)"
    by (cases "describe E resource") blast
next
  fix e other
  assume "snd (OpenRemotesCommandQuickPickItem E remotes resource goBackCommand) = Inl e"
  then show "snd (OpenRemotesCommandQuickPickItem E remotes other goBackCommand) = Inl e"
    by (rule build_fault_any_resource)
qed (simp_all add: revisionWithoutCommit_def)

theorem describe_total_witness:
  "describe sampleCollaborators Unrecognized = (Unrecognized, [])
   \<and> describe sampleCollaborators (Revision ''src/app.ts'' None None)
       = (Revision ''src/app.ts'' None None, ''$(file-text) app.ts'')
   \<and> describe sampleCollaborators
        (Revision ''src/app.ts'' None (Some ((commitOf ''D'' ''bbb222'' ''aaa111'')\<lparr>isFile := False\<rparr>)))
       = (Revision ''src/app.ts'' None (Some ((commitOf ''D'' ''bbb222'' ''aaa111'')\<lparr>isFile := False\<rparr>)),
          ''$(file-text) app.ts'')
   \<and> snd (OpenRemotesCommandQuickPickItem sampleCollaborators [] Unrecognized None) = Inl TypeError"
proof -
  let ?c = "(commitOf ''D'' ''bbb222'' ''aaa111'')\<lparr>isFile := False\<rparr>"
  note total = describe_total [of sampleCollaborators "''src/app.ts''" Repo "[]" None]
  have not_file: "\<not> isFile ?c" by simp
  have faulted: "snd (OpenRemotesCommandQuickPickItem sampleCollaborators [] Repo None) = Inl TypeError"
    by (simp add: build_empty)
  from total have "describe sampleCollaborators Unrecognized = (Unrecognized, [])"
    by blast
  moreover from total
  have "describe sampleCollaborators (Revision ''src/app.ts'' None None)
       = (Revision ''src/app.ts'' None None, ''$(file-text) '' @ basename sampleCollaborators ''src/app.ts'')"
    by blast
  then have "describe sampleCollaborators (Revision ''src/app.ts'' None None)
       = (Revision ''src/app.ts'' None None, ''$(file-text) app.ts'')"
    by (simp add: sampleCollaborators_def)
  moreover from total not_file
  have "describe sampleCollaborators (Revision ''src/app.ts'' None (Some ?c))
       = (Revision ''src/app.ts'' None (Some ?c), ''$(file-text) '' @ basename sampleCollaborators ''src/app.ts'')"
    by blast
  then have "describe sampleCollaborators (Revision ''src/app.ts'' None (Some ?c))
       = (Revision ''src/app.ts'' None (Some ?c), ''$(file-text) app.ts'')"
    by (simp add: sampleCollaborators_def)
  moreover from total faulted
  have "snd (OpenRemotesCommandQuickPickItem sampleCollaborators [] Unrecognized None) = Inl TypeError"
    by blast
  ultimately show ?thesis by blast
qed

section \<open>Facts about \<open>RemotesQuickPick.show\<close>\<close>

lemma map_items_Inr: "map_items f xs = Inr ys \<longleftrightarrow> map f xs = map Inr ys"
proof (induction xs arbitrary: ys)
  case Nil
  then show ?case by auto
next
  case (Cons x xs)
  have IH: "(map f xs = map Inr zs) = (map_items f xs = Inr zs)" for zs
    using Cons.IH by simp
  show ?case by (cases ys) (auto simp: IH split: sum.splits)
qed

lemma map_items_Inl: "map_items f xs = Inl TypeError \<longleftrightarrow> (\<exists>x\<in>set xs. f x = Inl TypeError)"
proof (induction xs)
  case Nil
  then show ?case by simp
next
  case (Cons x xs)
  show ?case
  proof (cases "f x")
    case (Inl e)
    then show ?thesis by (cases e) simp
  next
    case (Inr y)
    with Cons.IH show ?thesis by (cases "map_items f xs") auto
  qed
qed

lemma per_remote_fault:
  "OpenRemoteCommandQuickPickItem E remote resource clipboard = Inl TypeError
     \<longleftrightarrow> provider remote = None"
  by (simp add: OpenRemoteCommandQuickPickItem_def split: option.splits)

lemma show_items_fault:
  "show_items E remotes resource clipboard goBackCommand = Inl TypeError
     \<longleftrightarrow> (\<exists>r\<in>set remotes. provider r = None)"
proof -
  have "show_items E remotes resource clipboard goBackCommand = Inl TypeError
      \<longleftrightarrow> map_items (\<lambda>r. OpenRemoteCommandQuickPickItem E r resource clipboard) remotes
            = Inl TypeError"
    by (auto simp: show_items_def split: sum.splits)
  then show ?thesis by (simp add: map_items_Inl per_remote_fault)
qed

lemma show_items_Inr:
  "show_items E remotes resource clipboard goBackCommand = Inr items \<longleftrightarrow>
     map Inr items =
       (case goBackCommand of Some g \<Rightarrow> [Inr (CommandItem g)] | None \<Rightarrow> [])
         @ map (\<lambda>r. OpenRemoteCommandQuickPickItem E r resource clipboard) remotes"
proof (cases "map_items (\<lambda>r. OpenRemoteCommandQuickPickItem E r resource clipboard) remotes")
  case (Inl e)
  then have no: "\<And>ys. map (\<lambda>r. OpenRemoteCommandQuickPickItem E r resource clipboard) remotes
      \<noteq> map Inr ys"
    by (simp add: map_items_Inr [symmetric])
  have "\<not> (map Inr items =
       (case goBackCommand of Some g \<Rightarrow> [Inr (CommandItem g)] | None \<Rightarrow> [])
         @ map (\<lambda>r. OpenRemoteCommandQuickPickItem E r resource clipboard) remotes)"
  proof (cases goBackCommand)
    case None
    with no [of items] show ?thesis by auto
  next
    case (Some g)
    show ?thesis
    proof (cases items)
      case Nil
      with Some show ?thesis by simp
    next
      case (Cons i rest)
      with Some no [of rest] show ?thesis by auto
    qed
  qed
  with Inl show ?thesis by (simp add: show_items_def)
next
  case (Inr ys)
  then have ys: "map (\<lambda>r. OpenRemoteCommandQuickPickItem E r resource clipboard) remotes
      = map Inr ys"
    by (simp add: map_items_Inr)
  show ?thesis
  proof (cases goBackCommand)
    case None
    with Inr ys show ?thesis by (auto simp: show_items_def inj_map_eq_map)
  next
    case (Some g)
    have "map Inr items = Inr (CommandItem g) # map Inr ys \<longleftrightarrow> items = CommandItem g # ys"
      by (cases items) (auto simp: inj_map_eq_map)
    with Some Inr ys show ?thesis by (auto simp: show_items_def)
  qed
qed

lemma show_items_members:
  assumes "show_items E remotes resource clipboard goBackCommand = Inr items"
    and "OpenRemoteItem item r res cb \<in> set items"
  shows "r \<in> set remotes \<and> provider r \<noteq> None"
proof -
  from assms(1) have shape: "map Inr items =
       (case goBackCommand of Some g \<Rightarrow> [Inr (CommandItem g)] | None \<Rightarrow> [])
         @ map (\<lambda>r. OpenRemoteCommandQuickPickItem E r resource clipboard) remotes"
    by (simp add: show_items_Inr)
  from assms(2) have "Inr (OpenRemoteItem item r res cb) \<in> set (map Inr items)"
    by simp
  then have "Inr (OpenRemoteItem item r res cb)
      \<in> set ((case goBackCommand of Some g \<Rightarrow> [Inr (CommandItem g)] | None \<Rightarrow> [])
         @ map (\<lambda>r. OpenRemoteCommandQuickPickItem E r resource clipboard) remotes)"
    by (subst shape [symmetric])
  then have "Inr (OpenRemoteItem item r res cb)
      \<in> set (map (\<lambda>r. OpenRemoteCommandQuickPickItem E r resource clipboard) remotes)"
    by (cases goBackCommand) auto
  then obtain r' where r': "r' \<in> set remotes"
    and built: "OpenRemoteCommandQuickPickItem E r' resource clipboard
        = Inr (OpenRemoteItem item r res cb)"
    by auto
  from built have "r = r' \<and> provider r' \<noteq> None"
    by (auto simp: OpenRemoteCommandQuickPickItem_def split: option.splits)
  with r' show ?thesis by simp
qed

section \<open>Remotes without a provider in \<open>RemotesQuickPick.show\<close>\<close>

text \<open>
  Claim C5, as stated, fails: a remote without a provider is not left out silently.
  \<open>show\<close> maps the per-remote constructor over every remote, the constructor reads
  \<open>remote.provider!.name\<close>, and the call ends with a \<open>TypeError\<close> before anything is
  presented. Here the second of two remotes has no provider.
\<close>

theorem provider_less_remote_counterexample:
  "show_items sampleCollaborators
      [remoteOf ''GitHub'' ''org/repo'' False, bareRemote False] (File ''src/app.ts'') None None
     = Inl TypeError
   \<and> show_quickpick sampleCollaborators
      [remoteOf ''GitHub'' ''org/repo'' False, bareRemote False] ''Open on''
      (File ''src/app.ts'') None None
     = Inl TypeError"
  by (simp add: show_quickpick_def show_items_def OpenRemoteCommandQuickPickItem_def)

text \<open>
  Claim C5, amended. \<open>RemotesQuickPick.show\<close> does not filter its remotes: it throws
  exactly when some remote of the list has no provider, and then presents nothing. So
  whenever it does present a list, every per-remote item in it belongs to a remote of the
  input that has a provider.
\<close>

theorem show_items_unfiltered:
  "(show_items E remotes resource clipboard goBackCommand = Inl TypeError
      \<longleftrightarrow> (\<exists>r\<in>set remotes. provider r = None))
   \<and> (show_quickpick E remotes placeHolder_text resource clipboard goBackCommand = Inl TypeError
      \<longleftrightarrow> (\<exists>r\<in>set remotes. provider r = None))
   \<and> (\<forall>items item r res cb.
        show_items E remotes resource clipboard goBackCommand = Inr items
        \<and> OpenRemoteItem item r res cb \<in> set items \<longrightarrow>
        r \<in> set remotes \<and> provider r \<noteq> None)"
proof (intro conjI)
  show "show_items E remotes resource clipboard goBackCommand = Inl TypeError
      \<longleftrightarrow> (\<exists>r\<in>set remotes. provider r = None)"
    by (rule show_items_fault)
next
  have "show_quickpick E remotes placeHolder_text resource clipboard goBackCommand = Inl TypeError
      \<longleftrightarrow> show_items E remotes resource clipboard goBackCommand = Inl TypeError"
    by (auto simp: show_quickpick_def Let_def split: sum.splits)
  then show "show_quickpick E remotes placeHolder_text resource clipboard goBackCommand
        = Inl TypeError
      \<longleftrightarrow> (\<exists>r\<in>set remotes. provider r = None)"
    by (simp add: show_items_fault)
next
  show "\<forall>items item r res cb.
        show_items E remotes resource clipboard goBackCommand = Inr items
        \<and> OpenRemoteItem item r res cb \<in> set items \<longrightarrow>
        r \<in> set remotes \<and> provider r \<noteq> None"
    using show_items_members by blast
qed

theorem show_items_unfiltered_witness:
  "show_items sampleCollaborators
      [bareRemote False, remoteOf ''GitHub'' ''org/repo'' False] Repo None None = Inl TypeError
   \<and> show_items sampleCollaborators [remoteOf ''GitHub'' ''org/repo'' False] Repo None None
       \<noteq> Inl TypeError"
proof (intro conjI)
  let ?xs = "[bareRemote False, remoteOf ''GitHub'' ''org/repo'' False]"
  have "\<exists>r\<in>set ?xs. provider r = None" by simp
  with show_items_unfiltered [of sampleCollaborators ?xs Repo None None]
  show "show_items sampleCollaborators ?xs Repo None None = Inl TypeError"
    by blast
next
  let ?ys = "[remoteOf ''GitHub'' ''org/repo'' False]"
  have "\<not> (\<exists>r\<in>set ?ys. provider r = None)" by simp
  with show_items_unfiltered [of sampleCollaborators ?ys Repo None None]
  show "show_items sampleCollaborators ?ys Repo None None \<noteq> Inl TypeError"
    by blast
qed

section \<open>The order of the presented items\<close>

lemma show_quickpick_handover:
  "show_items E remotes resource clipboard goBackCommand = Inr items \<Longrightarrow>
     show_quickpick E remotes placeHolder_text resource clipboard goBackCommand =
       Inr (showQuickPick E items
              \<lparr>placeHolder = placeHolder_text, ignoreFocusOut = getQuickPickIgnoreFocusOut E\<rparr>)"
  by (simp add: show_quickpick_def Let_def)

lemma show_quickpick_returns:
  "show_quickpick E remotes placeHolder_text resource clipboard goBackCommand = Inr pick \<Longrightarrow>
     \<exists>items. show_items E remotes resource clipboard goBackCommand = Inr items
       \<and> pick = showQuickPick E items
              \<lparr>placeHolder = placeHolder_text, ignoreFocusOut = getQuickPickIgnoreFocusOut E\<rparr>"
  by (cases "show_items E remotes resource clipboard goBackCommand")
     (auto simp: show_quickpick_def Let_def split: if_splits)

text \<open>
  Claim C8. The list \<open>RemotesQuickPick.show\<close> hands to \<open>window.showQuickPick\<close> is the
  go-back item, when one is supplied, followed by the per-remote items: the item at each
  position is the one the per-remote constructor builds for the remote at that position
  of the input, so nothing is sorted, dropped or repeated. \<open>show\<close> calls
  \<open>window.showQuickPick\<close> on exactly this list, with the place holder and the
  focus setting, and resolves to its answer: this holds for every list widget, so also
  for one whose answer tells the lists apart. The list is handed over whenever every
  remote has a provider, and it then has one item per remote besides the go-back item;
  and whenever \<open>show\<close> resolves, its result is the widget's answer on this list.
\<close>

theorem show_presents_in_order:
  "(\<forall>items. show_items E remotes resource clipboard goBackCommand = Inr items \<longrightarrow>
       map Inr items =
         (case goBackCommand of Some g \<Rightarrow> [Inr (CommandItem g)] | None \<Rightarrow> [])
           @ map (\<lambda>r. OpenRemoteCommandQuickPickItem E r resource clipboard) remotes
       \<and> show_quickpick E remotes placeHolder_text resource clipboard goBackCommand =
           Inr (showQuickPick E items
                  \<lparr>placeHolder = placeHolder_text,
                   ignoreFocusOut = getQuickPickIgnoreFocusOut E\<rparr>))
   \<and> ((\<forall>r\<in>set remotes. provider r \<noteq> None) \<longrightarrow>
        (\<exists>items. show_items E remotes resource clipboard goBackCommand = Inr items
           \<and> length items = length remotes + (case goBackCommand of Some g \<Rightarrow> 1 | None \<Rightarrow> 0)
           \<and> map Inr items =
               (case goBackCommand of Some g \<Rightarrow> [Inr (CommandItem g)] | None \<Rightarrow> [])
                 @ map (\<lambda>r. OpenRemoteCommandQuickPickItem E r resource clipboard) remotes
           \<and> show_quickpick E remotes placeHolder_text resource clipboard goBackCommand =
               Inr (showQuickPick E items
                      \<lparr>placeHolder = placeHolder_text,
                       ignoreFocusOut = getQuickPickIgnoreFocusOut E\<rparr>)))
   \<and> (\<forall>pick. show_quickpick E remotes placeHolder_text resource clipboard goBackCommand
                 = Inr pick \<longrightarrow>
        (\<exists>items.
           map Inr items =
             (case goBackCommand of Some g \<Rightarrow> [Inr (CommandItem g)] | None \<Rightarrow> [])
               @ map (\<lambda>r. OpenRemoteCommandQuickPickItem E r resource clipboard) remotes
           \<and> pick = showQuickPick E items
                  \<lparr>placeHolder = placeHolder_text,
                   ignoreFocusOut = getQuickPickIgnoreFocusOut E\<rparr>))"
proof (intro conjI allI impI)
  fix items
  assume built: "show_items E remotes resource clipboard goBackCommand = Inr items"
  then show "map Inr items =
         (case goBackCommand of Some g \<Rightarrow> [Inr (CommandItem g)] | None \<Rightarrow> [])
           @ map (\<lambda>r. OpenRemoteCommandQuickPickItem E r resource clipboard) remotes"
    by (simp add: show_items_Inr)
  from built
  show "show_quickpick E remotes placeHolder_text resource clipboard goBackCommand =
           Inr (showQuickPick E items
                  \<lparr>placeHolder = placeHolder_text,
                   ignoreFocusOut = getQuickPickIgnoreFocusOut E\<rparr>)"
    by (rule show_quickpick_handover)
next
  assume "\<forall>r\<in>set remotes. provider r \<noteq> None"
  then have "show_items E remotes resource clipboard goBackCommand \<noteq> Inl TypeError"
    by (simp add: show_items_fault)
  then obtain items where items: "show_items E remotes resource clipboard goBackCommand = Inr items"
    by (cases "show_items E remotes resource clipboard goBackCommand") (auto intro: fault.exhaust)
  then have shape: "map Inr items =
         (case goBackCommand of Some g \<Rightarrow> [Inr (CommandItem g)] | None \<Rightarrow> [])
           @ map (\<lambda>r. OpenRemoteCommandQuickPickItem E r resource clipboard) remotes"
    by (simp add: show_items_Inr)
  from arg_cong [OF this, of length]
  have len: "length items = length remotes + (case goBackCommand of Some g \<Rightarrow> 1 | None \<Rightarrow> 0)"
    by (cases goBackCommand) simp_all
  from items shape len show_quickpick_handover [OF items, of placeHolder_text]
  show "\<exists>items. show_items E remotes resource clipboard goBackCommand = Inr items
           \<and> length items = length remotes + (case goBackCommand of Some g \<Rightarrow> 1 | None \<Rightarrow> 0)
           \<and> map Inr items =
               (case goBackCommand of Some g \<Rightarrow> [Inr (CommandItem g)] | None \<Rightarrow> [])
                 @ map (\<lambda>r. OpenRemoteCommandQuickPickItem E r resource clipboard) remotes
           \<and> show_quickpick E remotes placeHolder_text resource clipboard goBackCommand =
               Inr (showQuickPick E items
                      \<lparr>placeHolder = placeHolder_text,
                       ignoreFocusOut = getQuickPickIgnoreFocusOut E\<rparr>)"
    by blast
next
  fix pick
  assume "show_quickpick E remotes placeHolder_text resource clipboard goBackCommand = Inr pick"
  from show_quickpick_returns [OF this]
  obtain items where items: "show_items E remotes resource clipboard goBackCommand = Inr items"
    and pick: "pick = showQuickPick E items
        \<lparr>placeHolder = placeHolder_text, ignoreFocusOut = getQuickPickIgnoreFocusOut E\<rparr>"
    by blast
  from items have "map Inr items =
         (case goBackCommand of Some g \<Rightarrow> [Inr (CommandItem g)] | None \<Rightarrow> [])
           @ map (\<lambda>r. OpenRemoteCommandQuickPickItem E r resource clipboard) remotes"
    by (simp add: show_items_Inr)
  with pick
  show "\<exists>items.
           map Inr items =
             (case goBackCommand of Some g \<Rightarrow> [Inr (CommandItem g)] | None \<Rightarrow> [])
               @ map (\<lambda>r. OpenRemoteCommandQuickPickItem E r resource clipboard) remotes
           \<and> pick = showQuickPick E items
                  \<lparr>placeHolder = placeHolder_text,
                   ignoreFocusOut = getQuickPickIgnoreFocusOut E\<rparr>"
    by blast
qed

theorem show_presents_in_order_witness:
  "show_items sampleCollaborators
      [remoteOf ''GitLab'' ''team/repo'' False, remoteOf ''GitHub'' ''org/repo'' True]
      Repo None (Some (CommandQuickPickItem ''go back'' [] None None))
     = Inr [CommandItem (CommandQuickPickItem ''go back'' [] None None),
            OpenRemoteItem
              (CommandQuickPickItem ''$(link-external) Open Repository on GitLab''
                 ''  -    $(repo) team/repo'' None None)
              (remoteOf ''GitLab'' ''team/repo'' False) Repo None,
            OpenRemoteItem
              (CommandQuickPickItem ''$(link-external) Open Repository on GitHub''
                 ''  -    $(repo) org/repo'' None None)
              (remoteOf ''GitHub'' ''org/repo'' True) Repo None]
   \<and> show_quickpick lastItemCollaborators
      [remoteOf ''GitLab'' ''team/repo'' False, remoteOf ''GitHub'' ''org/repo'' True]
      ''Open on'' Repo None (Some (CommandQuickPickItem ''go back'' [] None None))
     = Inr (Some (OpenRemoteItem
              (CommandQuickPickItem ''$(link-external) Open Repository on GitHub''
                 ''  -    $(repo) org/repo'' None None)
              (remoteOf ''GitHub'' ''org/repo'' True) Repo None))
   \<and> show_quickpick sampleCollaborators
      [remoteOf ''GitLab'' ''team/repo'' False, remoteOf ''GitHub'' ''org/repo'' True]
      ''Open on'' Repo None (Some (CommandQuickPickItem ''go back'' [] None None))
     = Inr (Some (CommandItem (CommandQuickPickItem ''go back'' [] None None)))"
proof (intro conjI)
  let ?xs = "[remoteOf ''GitLab'' ''team/repo'' False, remoteOf ''GitHub'' ''org/repo'' True]"
  let ?g = "CommandQuickPickItem ''go back'' [] None None"
  let ?shown = "[CommandItem ?g,
            OpenRemoteItem
              (CommandQuickPickItem ''$(link-external) Open Repository on GitLab''
                 ''  -    $(repo) team/repo'' None None)
              (remoteOf ''GitLab'' ''team/repo'' False) Repo None,
            OpenRemoteItem
              (CommandQuickPickItem ''$(link-external) Open Repository on GitHub''
                 ''  -    $(repo) org/repo'' None None)
              (remoteOf ''GitHub'' ''org/repo'' True) Repo None]"
  have provided: "\<forall>r\<in>set ?xs. provider r \<noteq> None" by simp
  have shown: "items = ?shown"
    if "map Inr items =
         (case Some ?g of Some g \<Rightarrow> [Inr (CommandItem g)] | None \<Rightarrow> [])
           @ map (\<lambda>r. OpenRemoteCommandQuickPickItem E r Repo None) ?xs"
      and "getNameFromRemoteResource E = sampleName" and "pad E = pad sampleCollaborators"
      and "Dash E = ''-''"
    for items E
    using that
    by (auto simp: OpenRemoteCommandQuickPickItem_def sampleCollaborators_def
        numeral_2_eq_2 numeral_3_eq_3)
  from show_presents_in_order [of sampleCollaborators ?xs Repo None "Some ?g" "''Open on''"]
    provided
  obtain items where built: "show_items sampleCollaborators ?xs Repo None (Some ?g) = Inr items"
    and shape: "map Inr items =
         (case Some ?g of Some g \<Rightarrow> [Inr (CommandItem g)] | None \<Rightarrow> [])
           @ map (\<lambda>r. OpenRemoteCommandQuickPickItem sampleCollaborators r Repo None) ?xs"
    and picked: "show_quickpick sampleCollaborators ?xs ''Open on'' Repo None (Some ?g) =
        Inr (showQuickPick sampleCollaborators items
               \<lparr>placeHolder = ''Open on'',
                ignoreFocusOut = getQuickPickIgnoreFocusOut sampleCollaborators\<rparr>)"
    by blast
  from shape have items: "items = ?shown"
    by (rule shown) (simp_all add: sampleCollaborators_def)
  from built items show "show_items sampleCollaborators ?xs Repo None (Some ?g) = Inr ?shown"
    by simp
  from picked items
  show "show_quickpick sampleCollaborators ?xs ''Open on'' Repo None (Some ?g)
      = Inr (Some (CommandItem ?g))"
    by (simp add: sampleCollaborators_def)
  from show_presents_in_order [of lastItemCollaborators ?xs Repo None "Some ?g" "''Open on''"]
    provided
  obtain items' where
    shape': "map Inr items' =
         (case Some ?g of Some g \<Rightarrow> [Inr (CommandItem g)] | None \<Rightarrow> [])
           @ map (\<lambda>r. OpenRemoteCommandQuickPickItem lastItemCollaborators r Repo None) ?xs"
    and picked': "show_quickpick lastItemCollaborators ?xs ''Open on'' Repo None (Some ?g) =
        Inr (showQuickPick lastItemCollaborators items'
               \<lparr>placeHolder = ''Open on'',
                ignoreFocusOut = getQuickPickIgnoreFocusOut lastItemCollaborators\<rparr>)"
    by blast
  from shape' have "items' = ?shown"
    by (rule shown) (simp_all add: lastItemCollaborators_def sampleCollaborators_def)
  with picked'
  show "show_quickpick lastItemCollaborators ?xs ''Open on'' Repo None (Some ?g)
     = Inr (Some (OpenRemoteItem
              (CommandQuickPickItem ''$(link-external) Open Repository on GitHub''
                 ''  -    $(repo) org/repo'' None None)
              (remoteOf ''GitHub'' ''org/repo'' True) Repo None))"
    by (simp add: lastItemCollaborators_def sampleCollaborators_def)
qed

section \<open>The result of \<open>RemotesQuickPick.show\<close>\<close>

text \<open>
  Claim C9. \<open>RemotesQuickPick.show\<close> resolves to \<open>undefined\<close> exactly when the list was
  presented and \<open>window.showQuickPick\<close> answered with no selection, and it resolves to an
  item exactly when the list was presented and that item is the answer, a go-back item
  included. The result is the item itself: \<open>show\<close> has no call of \<open>execute\<close>.
\<close>

theorem show_quickpick_result:
  "(show_quickpick E remotes placeHolder_text resource clipboard goBackCommand = Inr None
      \<longleftrightarrow> (\<exists>items. show_items E remotes resource clipboard goBackCommand = Inr items
            \<and> showQuickPick E items
                \<lparr>placeHolder = placeHolder_text, ignoreFocusOut = getQuickPickIgnoreFocusOut E\<rparr>
              = None))
   \<and> (show_quickpick E remotes placeHolder_text resource clipboard goBackCommand = Inr (Some pick)
      \<longleftrightarrow> (\<exists>items. show_items E remotes resource clipboard goBackCommand = Inr items
            \<and> showQuickPick E items
                \<lparr>placeHolder = placeHolder_text, ignoreFocusOut = getQuickPickIgnoreFocusOut E\<rparr>
              = Some pick))"
  by (cases "show_items E remotes resource clipboard goBackCommand")
     (simp_all add: show_quickpick_def Let_def)

theorem show_quickpick_result_witness:
  "show_quickpick sampleCollaborators [] ''Open on'' Repo None
      (Some (CommandQuickPickItem ''go back'' [] None None))
     = Inr (Some (CommandItem (CommandQuickPickItem ''go back'' [] None None)))
   \<and> show_quickpick dismissingCollaborators [remoteOf ''GitHub'' ''org/repo'' False] ''Open on''
        Repo None None
     = Inr None"
proof (intro conjI)
  let ?g = "CommandQuickPickItem ''go back'' [] None None"
  have "show_items sampleCollaborators [] Repo None (Some ?g) = Inr [CommandItem ?g]
      \<and> showQuickPick sampleCollaborators [CommandItem ?g]
          \<lparr>placeHolder = ''Open on'',
           ignoreFocusOut = getQuickPickIgnoreFocusOut sampleCollaborators\<rparr>
        = Some (CommandItem ?g)"
    by (simp add: show_items_def sampleCollaborators_def)
  then have "\<exists>items. show_items sampleCollaborators [] Repo None (Some ?g) = Inr items
      \<and> showQuickPick sampleCollaborators items
          \<lparr>placeHolder = ''Open on'',
           ignoreFocusOut = getQuickPickIgnoreFocusOut sampleCollaborators\<rparr>
        = Some (CommandItem ?g)"
    by blast
  with show_quickpick_result [of sampleCollaborators "[]" "''Open on''" Repo None "Some ?g"
      "CommandItem ?g"]
  show "show_quickpick sampleCollaborators [] ''Open on'' Repo None (Some ?g)
     = Inr (Some (CommandItem ?g))"
    by blast
next
  let ?xs = "[remoteOf ''GitHub'' ''org/repo'' False]"
  have "\<exists>items. show_items dismissingCollaborators ?xs Repo None None = Inr items
      \<and> showQuickPick dismissingCollaborators items
          \<lparr>placeHolder = ''Open on'',
           ignoreFocusOut = getQuickPickIgnoreFocusOut dismissingCollaborators\<rparr>
        = None"
    by (simp add: show_items_def OpenRemoteCommandQuickPickItem_def dismissingCollaborators_def)
  with show_quickpick_result [of dismissingCollaborators ?xs "''Open on''" Repo None None undefined]
  show "show_quickpick dismissingCollaborators ?xs ''Open on'' Repo None None = Inr None"
    by blast
qed

end
